theory Spec2Isabelle
  imports Main "HOL-Library.Word"
begin

section \<open>The HelloWorld contract\<close>

text \<open>
  The contract of \<^verbatim>\<open>contracts/HelloWorld.sol\<close>, as listed in section 9 of the README:
  \<^verbatim>\<open>
  contract HelloWorld {
      string private greet;
      constructor() { greet = "Hello, World!"; }
      function greetFunction() public view returns (string memory) { return greet; }
      function setGreet(string memory _greet) public {
          require(bytes(_greet).length > 0, "Greeting cannot be empty");
          greet = _greet;
      }
  }
  \<close>
  A Solidity \<^verbatim>\<open>string\<close> is a sequence of bytes, and \<^verbatim>\<open>bytes(s).length\<close> counts them; a HOL
  \<^typ>\<open>string\<close> is a list of 8-bit characters, so \<^term>\<open>length\<close> is that count.
\<close>

type_synonym address = "160 word"

text \<open>The part of Solidity's \<^verbatim>\<open>msg\<close> that tells callers apart.\<close>

record msg =
  sender :: address

text \<open>The storage of one deployed instance: the single state variable \<^verbatim>\<open>greet\<close>.\<close>

record HelloWorld =
  greet :: string

text \<open>A revert: \<^verbatim>\<open>require(c, m)\<close> with \<^verbatim>\<open>c\<close> false raises \<^verbatim>\<open>Error(m)\<close>.\<close>

datatype revert = Error string

text \<open>
  A function body runs on the storage and either reverts or returns a value and the
  storage it leaves.
\<close>

type_synonym 'a exec = "HelloWorld \<Rightarrow> revert + ('a \<times> HelloWorld)"

definition require :: "bool \<Rightarrow> string \<Rightarrow> revert + unit" where
  "require c m = (if c then Inr () else Inl (Error m))"

definition constructor :: HelloWorld where
  "constructor = \<lparr>greet = ''Hello, World!''\<rparr>"

definition greetFunction :: "msg \<Rightarrow> string exec" where
  "greetFunction m st = Inr (greet st, st)"

definition setGreet :: "msg \<Rightarrow> string \<Rightarrow> unit exec" where
  "setGreet m greet_arg st =
     (case require (length greet_arg > 0) ''Greeting cannot be empty'' of
        Inl e \<Rightarrow> Inl e
      | Inr _ \<Rightarrow> Inr ((), st\<lparr>greet := greet_arg\<rparr>))"

text \<open>
  An external call (a transaction or a read) against an instance: a revert undoes every
  storage write of the call, so the caller sees the error and the storage as it was.
\<close>

definition call :: "'a exec \<Rightarrow> HelloWorld \<Rightarrow> (revert + 'a) \<times> HelloWorld" where
  "call f st = (case f st of Inl e \<Rightarrow> (Inl e, st) | Inr (r, st') \<Rightarrow> (Inr r, st'))"

text \<open>Sequences of calls, as any number of callers may issue them against one instance.\<close>

datatype op = Get msg | Set msg string

fun step :: "op \<Rightarrow> HelloWorld \<Rightarrow> HelloWorld" where
  "step (Get m) st = snd (call (greetFunction m) st)"
| "step (Set m s) st = snd (call (setGreet m s) st)"

fun run :: "op list \<Rightarrow> HelloWorld \<Rightarrow> HelloWorld" where
  "run [] st = st"
| "run (x # xs) st = run xs (step x st)"

section \<open>The scripts' view of the execution environment\<close>

text \<open>
  The deployment script and the tests are asynchronous TypeScript: every call into the
  environment may reject, and a rejection (or a \<^verbatim>\<open>throw\<close>) ends the enclosing
  \<^verbatim>\<open>async\<close> function unless it is caught. What has been written before the failure
  stays written.
\<close>

datatype js_error =
    EnvironmentError string
  | CallException revert
  | AssertionError
  | TypeError string
  | InvalidChaiProperty string

type_synonym ('a, 's) async = "'s \<Rightarrow> (js_error + 'a) \<times> 's"



definition await :: "('a, 's) async \<Rightarrow> ('a \<Rightarrow> ('b, 's) async) \<Rightarrow> ('b, 's) async" where
  "await a f w = (case a w of (Inl e, w') \<Rightarrow> (Inl e, w') | (Inr x, w') \<Rightarrow> f x w')"

text \<open>
  The environment is not part of the repository. It is a parameter: the outcome it gives
  to each of the requests the scripts make, the address it assigns to a deployed
  instance, and the accounts it provides.
\<close>

record environment =
  createPublicClient :: "js_error + unit"
  getContractFactory :: "string \<Rightarrow> js_error + unit"
  deploy :: "js_error + string"
  deployed :: "js_error + unit"
  getSigners :: "address list"

datatype request = CreatePublicClient | GetContractFactory string | Deploy | Deployed

text \<open>
  What a run touches: the instances live in the environment (address and storage, in
  the order of their deployment), the two output streams, \<^verbatim>\<open>process.exitCode\<close>, the
  requests made so far, and what has been asked of a contract, in order and whether or
  not it went through: a transaction or a reading, and the account in whose name.
\<close>

datatype ask = Transaction address | Reading address

record world =
  instances :: "(string \<times> HelloWorld) list"
  stdout :: string
  stderr :: "js_error list"
  exitCode :: "nat option"
  requests :: "request list"
  asked :: "ask list"

definition initial :: world where
  "initial =
     \<lparr>instances = [], stdout = [], stderr = [], exitCode = None, requests = [], asked = []\<rparr>"

definition request :: "request \<Rightarrow> js_error + 'a \<Rightarrow> ('a, world) async" where
  "request r outcome w = (outcome, w\<lparr>requests := requests w @ [r]\<rparr>)"

text \<open>
  \<^verbatim>\<open>hello.deployed()\<close> resolves once the environment confirms that the instance is live:
  from then on the instance, in its constructor's state, is at the address.
\<close>

definition confirm :: "string \<Rightarrow> (unit, world) async" where
  "confirm a w = (Inr (), w\<lparr>instances := instances w @ [(a, constructor)]\<rparr>)"

section \<open>The deployment script\<close>

text \<open>
  \<^verbatim>\<open>
  async function main() {
      const client = createPublicClient({ chain: localhost, transport: http() });
      const HelloWorld = await ethers.getContractFactory("HelloWorld");
      const hello = await HelloWorld.deploy();
      await hello.deployed();
      console.log("HelloWorld deployed to:", hello.address);
  }
  main().catch((error) => { console.error(error); process.exitCode = 1; });
  \<close>
  \<^verbatim>\<open>console.log\<close> writes its arguments separated by single spaces and ends the line.
\<close>

definition newline :: char where
  "newline = CHR 0x0A"

fun join :: "string list \<Rightarrow> string" where
  "join [] = []"
| "join [x] = x"
| "join (x # y # ys) = x @ '' '' @ join (y # ys)"

definition console_log :: "string list \<Rightarrow> (unit, world) async" where
  "console_log args w = (Inr (), w\<lparr>stdout := stdout w @ join args @ [newline]\<rparr>)"

definition console_error :: "js_error \<Rightarrow> world \<Rightarrow> world" where
  "console_error e w = w\<lparr>stderr := stderr w @ [e]\<rparr>"

definition main :: "environment \<Rightarrow> (unit, world) async" where
  "main env =
     await (request CreatePublicClient (createPublicClient env)) (\<lambda>client.
     await (request (GetContractFactory ''HelloWorld'') (getContractFactory env ''HelloWorld''))
       (\<lambda>HelloWorld.
     await (request Deploy (deploy env)) (\<lambda>hello_address.
     await (await (request Deployed (deployed env)) (\<lambda>_. confirm hello_address)) (\<lambda>_.
     console_log [''HelloWorld deployed to:'', hello_address]))))"

definition script :: "environment \<Rightarrow> world" where
  "script env =
     (case main env initial of
        (Inl error, w) \<Rightarrow> (console_error error w)\<lparr>exitCode := Some 1\<rparr>
      | (Inr _, w) \<Rightarrow> w)"

text \<open>A process whose \<^verbatim>\<open>exitCode\<close> was never set exits with status 0.\<close>

definition exit_status :: "world \<Rightarrow> nat" where
  "exit_status w = (case exitCode w of None \<Rightarrow> 0 | Some c \<Rightarrow> c)"

text \<open>
  An environment that answers every request, with the address of the README's sample
  output and three accounts.
\<close>

definition example_environment :: environment where
  "example_environment =
     \<lparr>createPublicClient = Inr (),
      getContractFactory = (\<lambda>name. Inr ()),
      deploy = Inr ''0xYourContractAddress'',
      deployed = Inr (),
      getSigners = [1, 2, 3]\<rparr>"

section \<open>The test suites\<close>

text \<open>
  A test holds a contract object: the address of the instance and the account that signs
  its transactions (\<^verbatim>\<open>connect\<close> gives the same object with another signer, or with none
  when the argument is \<^verbatim>\<open>undefined\<close>). A transaction needs a signer. It runs the function
  on the storage at the address and keeps the storage it leaves; a revert rejects with
  the revert's reason and keeps nothing; at an address that holds no instance it goes
  through and does nothing. A read runs the function and keeps nothing; on an object
  with no signer it throws.
\<close>

record handle =
  address :: string
  signer :: "address option"










text \<open>
  The variables of a \<^verbatim>\<open>describe\<close> block, assigned by its \<^verbatim>\<open>before\<close> hook and read by its
  tests. \<^verbatim>\<open>[owner, addr1] = await ethers.getSigners()\<close> takes the first two accounts;
  a missing one is \<^verbatim>\<open>undefined\<close>.
\<close>

record fixture =
  helloWorld :: handle
  owner :: "address option"
  addr1 :: "address option"







subsection \<open>The suite of the README\<close>







subsection \<open>The test file of the repository\<close>






section \<open>Properties of the contract\<close>

lemma call_greetFunction: "call (greetFunction m) st = (Inr (greet st), st)"
  by (simp add: call_def greetFunction_def)

lemma call_setGreet:
  "call (setGreet m s) st =
     (if s = [] then (Inl (Error ''Greeting cannot be empty''), st)
      else (Inr (), st\<lparr>greet := s\<rparr>))"
  by (simp add: call_def setGreet_def require_def)

lemma step_nonempty: "greet st \<noteq> [] \<Longrightarrow> greet (step x st) \<noteq> []"
  by (cases x) (simp_all add: call_greetFunction call_setGreet)

lemma run_nonempty: "greet st \<noteq> [] \<Longrightarrow> greet (run xs st) \<noteq> []"
  by (induction xs arbitrary: st) (simp_all add: step_nonempty)

text \<open>
  C1 (write then read). For every non-empty string \<open>s\<close>, by whichever callers, the call
  \<^verbatim>\<open>setGreet(s)\<close> succeeds, and \<^verbatim>\<open>greetFunction()\<close> on the storage it leaves returns
  exactly \<open>s\<close>.
\<close>

theorem C1_write_then_read:
  "s \<noteq> [] \<Longrightarrow>
     fst (call (setGreet m s) st) = Inr ()
     \<and> fst (call (greetFunction m') (snd (call (setGreet m s) st))) = Inr s"
  by (simp add: call_setGreet call_greetFunction)

theorem C1_write_then_read_witness:
  "''Hello, Ethereum!'' \<noteq> []
   \<and> fst (call (setGreet \<lparr>sender = 1\<rparr> ''Hello, Ethereum!'') constructor) = Inr ()
   \<and> fst (call (greetFunction \<lparr>sender = 2\<rparr>)
        (snd (call (setGreet \<lparr>sender = 1\<rparr> ''Hello, Ethereum!'') constructor)))
      = Inr ''Hello, Ethereum!''"
proof -
  have h: "''Hello, Ethereum!'' \<noteq> []" by simp
  from C1_write_then_read [OF h, where m = "\<lparr>sender = 1\<rparr>" and m' = "\<lparr>sender = 2\<rparr>"
      and st = constructor] h
  show ?thesis by blast
qed

text \<open>
  C2 (validation). \<^verbatim>\<open>setGreet("")\<close> fails with the error whose message is exactly
  "Greeting cannot be empty" and leaves the stored greeting as it was; the setter fails
  if and only if its argument is empty, and whenever it fails the storage is untouched.
\<close>

theorem C2_empty_rejected:
  "call (setGreet m []) st = (Inl (Error ''Greeting cannot be empty''), st)
   \<and> ((\<exists>e. fst (call (setGreet m s) st) = Inl e) = (s = []))
   \<and> ((fst (call (setGreet m s) st) = Inl (Error ''Greeting cannot be empty'')
        \<and> snd (call (setGreet m s) st) = st) = (s = []))"
  by (simp add: call_setGreet)

text \<open>
  C3 (initial value). On a freshly constructed instance, before any setter call,
  \<^verbatim>\<open>greetFunction()\<close> returns exactly "Hello, World!".
\<close>

theorem C3_initial_value:
  "call (greetFunction m) constructor = (Inr ''Hello, World!'', constructor)"
  by (simp add: call_greetFunction constructor_def)

text \<open>
  C4 (invariant). In every state reached from construction by any sequence of getter and
  setter calls, the stored greeting is non-empty: the constructor stores a non-empty
  value and every call keeps the value non-empty. (A setter call that fails leaves the
  storage as it was, so the sequences of successful calls are among those covered.)
\<close>

theorem C4_never_empty: "greet (run xs constructor) \<noteq> []"
  by (rule run_nonempty) (simp add: constructor_def)

text \<open>
  C5 (no access control). The outcome of the setter does not depend on the caller: for a
  non-empty input and any two callers \<open>a\<close> and \<open>b\<close>, both calls succeed and leave the
  same storage, whose value every caller \<open>c\<close> then reads through the getter.
\<close>

theorem C5_caller_independent:
  "s \<noteq> [] \<Longrightarrow>
     fst (call (setGreet \<lparr>sender = a\<rparr> s) st) = Inr ()
     \<and> fst (call (setGreet \<lparr>sender = b\<rparr> s) st) = Inr ()
     \<and> snd (call (setGreet \<lparr>sender = a\<rparr> s) st) = snd (call (setGreet \<lparr>sender = b\<rparr> s) st)
     \<and> fst (call (greetFunction \<lparr>sender = c\<rparr>) (snd (call (setGreet \<lparr>sender = a\<rparr> s) st))) = Inr s"
  by (simp add: call_setGreet call_greetFunction)

theorem C5_caller_independent_witness:
  "''Hello from addr1!'' \<noteq> []
   \<and> fst (call (setGreet \<lparr>sender = 1\<rparr> ''Hello from addr1!'') constructor) = Inr ()
   \<and> fst (call (setGreet \<lparr>sender = 2\<rparr> ''Hello from addr1!'') constructor) = Inr ()
   \<and> snd (call (setGreet \<lparr>sender = 1\<rparr> ''Hello from addr1!'') constructor)
     = snd (call (setGreet \<lparr>sender = 2\<rparr> ''Hello from addr1!'') constructor)
   \<and> fst (call (greetFunction \<lparr>sender = 3\<rparr>)
        (snd (call (setGreet \<lparr>sender = 1\<rparr> ''Hello from addr1!'') constructor)))
     = Inr ''Hello from addr1!''"
proof -
  have h: "''Hello from addr1!'' \<noteq> []" by simp
  from C5_caller_independent [OF h, where a = 1 and b = 2 and c = 3 and st = constructor] h
  show ?thesis by blast
qed

text \<open>
  C7 (the getter is pure). \<^verbatim>\<open>greetFunction\<close> takes no argument, never reverts, and leaves
  the storage of the instance exactly as it found it, in every state.
\<close>

theorem C7_getter_pure:
  "fst (call (greetFunction m) st) = Inr (greet st) \<and> snd (call (greetFunction m) st) = st"
  by (simp add: call_greetFunction)

text \<open>
  C10 (last writer wins). For non-empty \<open>s1\<close> and \<open>s2\<close>, the storage after
  \<^verbatim>\<open>setGreet(s1)\<close> followed by \<^verbatim>\<open>setGreet(s2)\<close> is the storage after \<^verbatim>\<open>setGreet(s2)\<close> alone,
  and it is the storage before with \<open>s2\<close> as its greeting: the second write replaces the
  first. In particular setting the same non-empty string twice is the same as setting
  it once, and leaves that string stored.
\<close>

theorem C10_last_writer_wins:
  "s1 \<noteq> [] \<Longrightarrow> s2 \<noteq> [] \<Longrightarrow>
     run [Set m1 s1, Set m2 s2] st = run [Set m2 s2] st
     \<and> run [Set m1 s1, Set m2 s2] st = st\<lparr>greet := s2\<rparr>
     \<and> greet (run [Set m1 s1, Set m2 s2] st) = s2
     \<and> greet (run [Set m1 s1] st) = s1
     \<and> run [Set m1 s1, Set m2 s1] st = run [Set m1 s1] st
     \<and> run [Set m1 s1, Set m2 s1] st = st\<lparr>greet := s1\<rparr>"
  by (simp add: call_setGreet)

theorem C10_last_writer_wins_witness:
  "''Hello, Ethereum!'' \<noteq> [] \<and> ''Hello from addr1!'' \<noteq> []
   \<and> run [Set \<lparr>sender = 1\<rparr> ''Hello, Ethereum!'', Set \<lparr>sender = 2\<rparr> ''Hello from addr1!''] constructor
     = run [Set \<lparr>sender = 2\<rparr> ''Hello from addr1!''] constructor
   \<and> greet (run [Set \<lparr>sender = 1\<rparr> ''Hello, Ethereum!'', Set \<lparr>sender = 2\<rparr> ''Hello from addr1!'']
        constructor) = ''Hello from addr1!''
   \<and> greet (run [Set \<lparr>sender = 1\<rparr> ''Hello, Ethereum!''] constructor) = ''Hello, Ethereum!''
   \<and> run [Set \<lparr>sender = 1\<rparr> ''Hello, Ethereum!'', Set \<lparr>sender = 2\<rparr> ''Hello, Ethereum!''] constructor
     = run [Set \<lparr>sender = 1\<rparr> ''Hello, Ethereum!''] constructor"
proof -
  have h1: "''Hello, Ethereum!'' \<noteq> []" and h2: "''Hello from addr1!'' \<noteq> []" by simp_all
  from C10_last_writer_wins [OF h1 h2, where ?m1.0 = "\<lparr>sender = 1\<rparr>" and ?m2.0 = "\<lparr>sender = 2\<rparr>"
      and st = constructor] h1 h2
  show ?thesis by blast
qed

section \<open>Properties of the deployment script\<close>

lemma main_eval:
  "main env initial =
    (case createPublicClient env of
       Inl e \<Rightarrow> (Inl e, initial\<lparr>requests := [CreatePublicClient]\<rparr>)
     | Inr _ \<Rightarrow>
    (case getContractFactory env ''HelloWorld'' of
       Inl e \<Rightarrow> (Inl e, initial\<lparr>requests := [CreatePublicClient, GetContractFactory ''HelloWorld'']\<rparr>)
     | Inr _ \<Rightarrow>
    (case deploy env of
       Inl e \<Rightarrow> (Inl e, initial\<lparr>requests := [CreatePublicClient, GetContractFactory ''HelloWorld'', Deploy]\<rparr>)
     | Inr a \<Rightarrow>
    (case deployed env of
       Inl e \<Rightarrow> (Inl e, initial\<lparr>requests := [CreatePublicClient, GetContractFactory ''HelloWorld'', Deploy, Deployed]\<rparr>)
     | Inr _ \<Rightarrow> (Inr (), initial\<lparr>requests := [CreatePublicClient, GetContractFactory ''HelloWorld'', Deploy, Deployed],
          instances := [(a, constructor)], stdout := ''HelloWorld deployed to: '' @ a @ [newline]\<rparr>)))))"
  by (simp add: main_def await_def request_def confirm_def console_log_def initial_def split: sum.splits)

lemma main_succeeds:
  "(fst (main env initial) = Inr ()) =
     (createPublicClient env = Inr () \<and> getContractFactory env ''HelloWorld'' = Inr ()
      \<and> (\<exists>a. deploy env = Inr a) \<and> deployed env = Inr ())"
  by (auto simp add: main_eval split: sum.splits)

text \<open>
  C8 (standard output). On a successful run the deployment script writes exactly one
  line to standard output, "HelloWorld deployed to: " followed by the address that the
  environment assigned to the deployed instance: the output is that text and a line
  break, the instance is live at that address, and the line break is the only one
  when the address holds none.
\<close>

theorem C8_stdout_one_line:
  "fst (main env initial) = Inr () \<Longrightarrow>
     (\<exists>a. deploy env = Inr a
        \<and> stdout (script env) = ''HelloWorld deployed to: '' @ a @ [newline]
        \<and> instances (script env) = [(a, constructor)]
        \<and> (newline \<notin> set a \<longrightarrow> count_list (stdout (script env)) newline = 1))"
  by (auto simp add: script_def main_eval newline_def split: sum.splits)

text \<open>
  The environment of the README's sample output gives the line of the sample output.
\<close>

theorem C8_stdout_one_line_witness:
  "fst (main example_environment initial) = Inr ()
   \<and> deploy example_environment = Inr ''0xYourContractAddress''
   \<and> stdout (script example_environment) = ''HelloWorld deployed to: 0xYourContractAddress'' @ [newline]
   \<and> count_list (stdout (script example_environment)) newline = 1"
proof -
  have h: "fst (main example_environment initial) = Inr ()"
    by (simp add: main_eval example_environment_def)
  have d: "deploy example_environment = Inr ''0xYourContractAddress''"
    by (simp add: example_environment_def)
  have n: "newline \<notin> set ''0xYourContractAddress''"
    by (simp add: newline_def)
  from C8_stdout_one_line [OF h] obtain a where
    a: "deploy example_environment = Inr a" and
    s: "stdout (script example_environment) = ''HelloWorld deployed to: '' @ a @ [newline]" and
    c: "newline \<notin> set a \<longrightarrow> count_list (stdout (script example_environment)) newline = 1"
    by blast
  from a d have a_eq: "a = ''0xYourContractAddress''" by simp
  from c n a_eq have c': "count_list (stdout (script example_environment)) newline = 1" by blast
  from s a_eq have s': "stdout (script example_environment) =
      ''HelloWorld deployed to: 0xYourContractAddress'' @ [newline]" by simp
  from h d s' c' show ?thesis by blast
qed

text \<open>
  C9 (failure policy). The exit status is 0 if and only if \<^verbatim>\<open>main\<close> succeeds. When it
  fails, the error is written to the error stream, the exit status is 1, nothing has been
  written to standard output, and no request has been made twice. A failure of the
  factory lookup, of the deployment or of its confirmation is the failure of \<^verbatim>\<open>main\<close>,
  and the failed request is the last one made: there is no retry.
\<close>

theorem C9_failure_exit_status:
  "(exit_status (script env) = 0) = (fst (main env initial) = Inr ())
   \<and> (\<forall>e. fst (main env initial) = Inl e \<longrightarrow>
          stderr (script env) = [e] \<and> exit_status (script env) = 1
          \<and> stdout (script env) = [] \<and> distinct (requests (script env)))
   \<and> (\<forall>e. createPublicClient env = Inr () \<and> getContractFactory env ''HelloWorld'' = Inl e \<longrightarrow>
          fst (main env initial) = Inl e
          \<and> requests (script env) = [CreatePublicClient, GetContractFactory ''HelloWorld''])
   \<and> (\<forall>e. createPublicClient env = Inr () \<and> getContractFactory env ''HelloWorld'' = Inr ()
          \<and> deploy env = Inl e \<longrightarrow>
          fst (main env initial) = Inl e
          \<and> requests (script env) = [CreatePublicClient, GetContractFactory ''HelloWorld'', Deploy])
   \<and> (\<forall>e a. createPublicClient env = Inr () \<and> getContractFactory env ''HelloWorld'' = Inr ()
          \<and> deploy env = Inr a \<and> deployed env = Inl e \<longrightarrow>
          fst (main env initial) = Inl e
          \<and> requests (script env) = [CreatePublicClient, GetContractFactory ''HelloWorld'', Deploy, Deployed])"
  unfolding script_def main_eval
  by (auto simp add: exit_status_def console_error_def initial_def split: sum.splits)

text \<open>
  Three environments, failing at the factory lookup, at the deployment and at its
  confirmation, and the one that answers every request.
\<close>

theorem C9_failure_exit_status_witness:
  "exit_status (script (example_environment\<lparr>getContractFactory := \<lambda>name. Inl (EnvironmentError ''HH700'')\<rparr>)) = 1
   \<and> stderr (script (example_environment\<lparr>getContractFactory := \<lambda>name. Inl (EnvironmentError ''HH700'')\<rparr>))
       = [EnvironmentError ''HH700'']
   \<and> requests (script (example_environment\<lparr>getContractFactory := \<lambda>name. Inl (EnvironmentError ''HH700'')\<rparr>))
       = [CreatePublicClient, GetContractFactory ''HelloWorld'']
   \<and> exit_status (script (example_environment\<lparr>deploy := Inl (EnvironmentError ''HH108'')\<rparr>)) = 1
   \<and> requests (script (example_environment\<lparr>deploy := Inl (EnvironmentError ''HH108'')\<rparr>))
       = [CreatePublicClient, GetContractFactory ''HelloWorld'', Deploy]
   \<and> exit_status (script (example_environment\<lparr>deployed := Inl (EnvironmentError ''timeout'')\<rparr>)) = 1
   \<and> requests (script (example_environment\<lparr>deployed := Inl (EnvironmentError ''timeout'')\<rparr>))
       = [CreatePublicClient, GetContractFactory ''HelloWorld'', Deploy, Deployed]
   \<and> exit_status (script example_environment) = 0"
proof -
  let ?f = "example_environment\<lparr>getContractFactory := \<lambda>name. Inl (EnvironmentError ''HH700'')\<rparr>"
  let ?d = "example_environment\<lparr>deploy := Inl (EnvironmentError ''HH108'')\<rparr>"
  let ?c = "example_environment\<lparr>deployed := Inl (EnvironmentError ''timeout'')\<rparr>"
  have f: "createPublicClient ?f = Inr () \<and> getContractFactory ?f ''HelloWorld'' = Inl (EnvironmentError ''HH700'')"
    by (simp add: example_environment_def)
  have d: "createPublicClient ?d = Inr () \<and> getContractFactory ?d ''HelloWorld'' = Inr ()
      \<and> deploy ?d = Inl (EnvironmentError ''HH108'')"
    by (simp add: example_environment_def)
  have c: "createPublicClient ?c = Inr () \<and> getContractFactory ?c ''HelloWorld'' = Inr ()
      \<and> deploy ?c = Inr ''0xYourContractAddress'' \<and> deployed ?c = Inl (EnvironmentError ''timeout'')"
    by (simp add: example_environment_def)
  have ok: "fst (main example_environment initial) = Inr ()"
    by (simp add: main_eval example_environment_def)
  from C9_failure_exit_status [of ?f] f
  have 1: "exit_status (script ?f) = 1 \<and> stderr (script ?f) = [EnvironmentError ''HH700'']
      \<and> requests (script ?f) = [CreatePublicClient, GetContractFactory ''HelloWorld'']"
    by blast
  from C9_failure_exit_status [of ?d] d
  have 2: "exit_status (script ?d) = 1
      \<and> requests (script ?d) = [CreatePublicClient, GetContractFactory ''HelloWorld'', Deploy]"
    by blast
  from C9_failure_exit_status [of ?c] c
  have 3: "exit_status (script ?c) = 1
      \<and> requests (script ?c) = [CreatePublicClient, GetContractFactory ''HelloWorld'', Deploy, Deployed]"
    by blast
  from C9_failure_exit_status [of example_environment] ok
  have 4: "exit_status (script example_environment) = 0"
    by blast
  from 1 2 3 4 show ?thesis by blast
qed

section \<open>Properties of the test suites\<close>


















end
